theory Spec2Isabelle
  imports Main
begin

section \<open>Python strings\<close>

text \<open>
  \<^verbatim>\<open>str.strip()\<close> removes leading and trailing whitespace. Strings are modelled as
  \<^typ>\<open>string\<close>, a character standing for the code point of its number, so for the
  code points below 256. The whitespace characters are the ones Python's \<^verbatim>\<open>str.isspace\<close>
  accepts among them: tab, line feed, vertical tab, form feed, carriage return (9 to 13),
  the four separators 28 to 31, the space (32), the next-line control (133, U+0085) and
  the no-break space (160, U+00A0).
\<close>

definition isspace :: "char \<Rightarrow> bool" where
  "isspace c = (of_char c \<in> {9, 10, 11, 12, 13, 28, 29, 30, 31, 32, 133, 160 :: nat})"

definition strip :: "string \<Rightarrow> string" where
  "strip s = rev (dropWhile isspace (rev (dropWhile isspace s)))"

text \<open>Decimal formatting of an integer, as an f-string does it.\<close>

definition digits :: string where
  "digits = ''0123456789''"

function str_nat :: "nat \<Rightarrow> string" where
  "str_nat n = (if n < 10 then [digits ! n] else str_nat (n div 10) @ [digits ! (n mod 10)])"
  by pat_completeness auto
termination
  by (relation "measure (\<lambda>n. n)") auto

declare str_nat.simps [simp del]

definition str_int :: "int \<Rightarrow> string" where
  "str_int i = (if i < 0 then CHR ''-'' # str_nat (nat (- i)) else str_nat (nat i))"

text \<open>Truthiness of an optional string: \<^verbatim>\<open>None\<close> and the empty string are falsy.\<close>

fun truthy :: "string option \<Rightarrow> bool" where
  "truthy None = False"
| "truthy (Some s) = (s \<noteq> [])"


section \<open>The expiring cache\<close>

text \<open>
  The OTP manager talks to one Redis cache through \<^verbatim>\<open>get\<close>, \<^verbatim>\<open>set\<close> with a timeout,
  \<^verbatim>\<open>delete\<close> and \<^verbatim>\<open>ttl\<close>. An entry is a value with the instant (in seconds) at which
  it expires; the store drops an entry once that instant has passed, so a read at instant
  \<open>now\<close> sees the entry as long as \<open>now\<close> is not after it. Every operation of the
  manager is given the instant at which it runs.
\<close>

type_synonym 'v cache = "string \<rightharpoonup> 'v \<times> nat"

definition cache_get :: "'v cache \<Rightarrow> nat \<Rightarrow> string \<Rightarrow> 'v option" where
  "cache_get c now k =
     (case c k of None \<Rightarrow> None
      | Some (v, expires) \<Rightarrow> if now \<le> expires then Some v else None)"

definition cache_get_default :: "'v cache \<Rightarrow> nat \<Rightarrow> string \<Rightarrow> 'v \<Rightarrow> 'v" where
  "cache_get_default c now k d = (case cache_get c now k of None \<Rightarrow> d | Some v \<Rightarrow> v)"

definition cache_set :: "'v cache \<Rightarrow> nat \<Rightarrow> string \<Rightarrow> 'v \<Rightarrow> nat \<Rightarrow> 'v cache" where
  "cache_set c now k v timeout = c(k \<mapsto> (v, now + timeout))"

definition cache_delete :: "'v cache \<Rightarrow> string \<Rightarrow> 'v cache" where
  "cache_delete c k = c(k := None)"

definition cache_ttl :: "'v cache \<Rightarrow> nat \<Rightarrow> string \<Rightarrow> nat" where
  "cache_ttl c now k = (case c k of None \<Rightarrow> 0 | Some (v, expires) \<Rightarrow> expires - now)"

text \<open>
  The manager keeps three families of keys in the cache, told apart by their prefix:
  \<^verbatim>\<open>otp:\<close> holds the code (a string), \<^verbatim>\<open>otp_attempts:\<close> the counter (an integer) and
  \<^verbatim>\<open>otp_verified:\<close> the flag (a boolean). The families never share a key
  (lemma \<open>otp_keys_distinct\<close> below), so the cache is the record of the three families,
  each with its own type of value.
\<close>

record otp_cache =
  otp_store :: "string cache"
  attempts_store :: "int cache"
  verified_store :: "bool cache"

definition empty_cache :: otp_cache where
  "empty_cache = \<lparr>otp_store = Map.empty, attempts_store = Map.empty, verified_store = Map.empty\<rparr>"


section \<open>OTPManager (core/utils/otp\_manager.py)\<close>

definition OTP_LENGTH :: nat where "OTP_LENGTH = 4"
definition OTP_EXPIRY :: nat where "OTP_EXPIRY = 300"
definition MAX_ATTEMPTS :: int where "MAX_ATTEMPTS = 3"
definition STATIC_OTP :: string where "STATIC_OTP = ''1234''"

definition get_otp_key :: "string \<Rightarrow> string" where
  "get_otp_key mobile_number = ''otp:'' @ mobile_number"

definition get_attempts_key :: "string \<Rightarrow> string" where
  "get_attempts_key mobile_number = ''otp_attempts:'' @ mobile_number"

definition get_verified_key :: "string \<Rightarrow> string" where
  "get_verified_key mobile_number = ''otp_verified:'' @ mobile_number"

text \<open>
  \<^verbatim>\<open>random.choices(string.digits, k=OTP_LENGTH)\<close>: the random source is a parameter,
  \<open>rnd i\<close> being the \<open>i\<close>-th draw.
\<close>

definition random_otp :: "(nat \<Rightarrow> nat) \<Rightarrow> string" where
  "random_otp rnd = map (\<lambda>i. digits ! (rnd i mod length digits)) [0..<OTP_LENGTH]"

text \<open>\<open>debug\<close> is \<^verbatim>\<open>settings.DEBUG\<close>, true in a development (non-production) deployment.\<close>

definition generate_otp :: "bool \<Rightarrow> (nat \<Rightarrow> nat) \<Rightarrow> string" where
  "generate_otp debug rnd = (if debug then STATIC_OTP else random_otp rnd)"

record create_result =
  cr_success :: bool
  cr_otp :: "string option"
  cr_message :: string
  cr_expires_in :: nat

record verify_result =
  vr_success :: bool
  vr_message :: string
  vr_attempts_left :: int

definition create_otp ::
  "bool \<Rightarrow> (nat \<Rightarrow> nat) \<Rightarrow> nat \<Rightarrow> string \<Rightarrow> otp_cache \<Rightarrow> create_result \<times> otp_cache" where
  "create_otp debug rnd now mobile_number c =
     (let existing_otp = cache_get (otp_store c) now (get_otp_key mobile_number) in
      if truthy existing_otp then
        (\<lparr>cr_success = False, cr_otp = None,
          cr_message = ''OTP already sent. Please wait before requesting a new one.'',
          cr_expires_in = cache_ttl (otp_store c) now (get_otp_key mobile_number)\<rparr>, c)
      else
        let otp = generate_otp debug rnd in
        (\<lparr>cr_success = True, cr_otp = Some otp,
          cr_message = ''OTP generated successfully'',
          cr_expires_in = OTP_EXPIRY\<rparr>,
         c\<lparr>otp_store := cache_set (otp_store c) now (get_otp_key mobile_number) otp OTP_EXPIRY,
           attempts_store := cache_delete (attempts_store c) (get_attempts_key mobile_number),
           verified_store := cache_delete (verified_store c) (get_verified_key mobile_number)\<rparr>))"

definition expired_result :: verify_result where
  "expired_result =
     \<lparr>vr_success = False,
      vr_message = ''OTP expired or not found. Please request a new OTP.'',
      vr_attempts_left = 0\<rparr>"

definition max_attempts_result :: verify_result where
  "max_attempts_result =
     \<lparr>vr_success = False,
      vr_message = ''Maximum verification attempts exceeded. Please request a new OTP.'',
      vr_attempts_left = 0\<rparr>"

definition verified_result :: verify_result where
  "verified_result =
     \<lparr>vr_success = True,
      vr_message = ''OTP verified successfully'',
      vr_attempts_left = MAX_ATTEMPTS\<rparr>"

definition invalid_result :: "int \<Rightarrow> verify_result" where
  "invalid_result attempts =
     \<lparr>vr_success = False,
      vr_message = ''Invalid OTP. '' @ str_int (MAX_ATTEMPTS - attempts) @ '' attempts remaining.'',
      vr_attempts_left = MAX_ATTEMPTS - attempts\<rparr>"

definition verify_otp :: "nat \<Rightarrow> string \<Rightarrow> string \<Rightarrow> otp_cache \<Rightarrow> verify_result \<times> otp_cache" where
  "verify_otp now mobile_number otp c =
     (case cache_get (otp_store c) now (get_otp_key mobile_number) of
        None \<Rightarrow> (expired_result, c)
      | Some stored_otp \<Rightarrow>
          if stored_otp = [] then (expired_result, c)
          else
            let attempts_key = get_attempts_key mobile_number;
                attempts = cache_get_default (attempts_store c) now attempts_key 0
            in
            if attempts \<ge> MAX_ATTEMPTS then
              (max_attempts_result,
               c\<lparr>otp_store := cache_delete (otp_store c) (get_otp_key mobile_number),
                 attempts_store := cache_delete (attempts_store c) attempts_key\<rparr>)
            else if strip otp = strip stored_otp then
              (verified_result,
               c\<lparr>verified_store :=
                    cache_set (verified_store c) now (get_verified_key mobile_number) True 600,
                 otp_store := cache_delete (otp_store c) (get_otp_key mobile_number),
                 attempts_store := cache_delete (attempts_store c) attempts_key\<rparr>)
            else
              (invalid_result (attempts + 1),
               c\<lparr>attempts_store :=
                    cache_set (attempts_store c) now attempts_key (attempts + 1) OTP_EXPIRY\<rparr>))"

definition is_verified :: "nat \<Rightarrow> string \<Rightarrow> otp_cache \<Rightarrow> bool" where
  "is_verified now mobile_number c =
     cache_get_default (verified_store c) now (get_verified_key mobile_number) False"

definition clear_verification :: "string \<Rightarrow> otp_cache \<Rightarrow> otp_cache" where
  "clear_verification mobile_number c =
     c\<lparr>verified_store := cache_delete (verified_store c) (get_verified_key mobile_number)\<rparr>"

text \<open>
  A client of the manager: a sequence of calls, each at its own instant, run one after
  the other on the cache. A call that issues a code carries its random source.
\<close>

datatype otp_call =
  IssueCode "nat \<Rightarrow> nat" string
| VerifyCode string string
| ClearVerified string

fun issues :: "string \<Rightarrow> otp_call \<Rightarrow> bool" where
  "issues m (IssueCode rnd m') = (m' = m)"
| "issues m (VerifyCode m' otp) = False"
| "issues m (ClearVerified m') = False"

fun otp_step :: "bool \<Rightarrow> nat \<times> otp_call \<Rightarrow> otp_cache \<Rightarrow> otp_cache" where
  "otp_step debug (now, IssueCode rnd m) c = snd (create_otp debug rnd now m c)"
| "otp_step debug (now, VerifyCode m otp) c = snd (verify_otp now m otp c)"
| "otp_step debug (now, ClearVerified m) c = clear_verification m c"

fun otp_exec :: "bool \<Rightarrow> (nat \<times> otp_call) list \<Rightarrow> otp_cache \<Rightarrow> otp_cache" where
  "otp_exec debug [] c = c"
| "otp_exec debug (x # xs) c = otp_exec debug xs (otp_step debug x c)"

text \<open>
  The scenario of the specification: a code is issued for a number in a development
  deployment, and three wrong codes are submitted.
\<close>

definition locked_cache :: otp_cache where
  "locked_cache = otp_exec True
     [(0, IssueCode (\<lambda>i. 0) ''+911234567890''),
      (1, VerifyCode ''+911234567890'' ''0000''),
      (2, VerifyCode ''+911234567890'' ''1111''),
      (3, VerifyCode ''+911234567890'' ''2222'')] empty_cache"

text \<open>The same deployment right after the code is issued, before any verification.\<close>

definition issued_cache :: otp_cache where
  "issued_cache = otp_exec True [(0, IssueCode (\<lambda>i. 0) ''+911234567890'')] empty_cache"


section \<open>Users and bookings (core/models.py)\<close>

text \<open>
  Timestamps are instants in seconds; \<^verbatim>\<open>timezone.now()\<close> is the instant \<open>now\<close> given to
  each view. A user row carries the permissions the framework resolves for it (from its
  groups and its own grants): \<open>perms\<close>.
\<close>

record user =
  user_id :: int
  mobile_number :: string
  first_name :: "string option"
  last_name :: "string option"
  role :: string
  is_active :: bool
  is_superuser :: bool
  perms :: "string list"

text \<open>
  \<^verbatim>\<open>request.user\<close> is a user row, or the anonymous user when nobody is logged in:
  \<^verbatim>\<open>user.is_authenticated\<close> is true of the former and false of the latter.
\<close>

datatype principal = AnonymousUser | LoggedIn user

text \<open>\<^verbatim>\<open>user.id\<close>: the anonymous user has none.\<close>

fun principal_id :: "principal \<Rightarrow> int option" where
  "principal_id AnonymousUser = None"
| "principal_id (LoggedIn u) = Some (user_id u)"

definition get_full_name :: "user \<Rightarrow> string" where
  "get_full_name u =
     (case (first_name u, last_name u) of
        (Some f, Some l) \<Rightarrow> if f \<noteq> [] \<and> l \<noteq> [] then f @ '' '' @ l else mobile_number u
      | _ \<Rightarrow> mobile_number u)"

record booking =
  customer_id :: int
  delivery_partner_id :: "int option"
  pickup_address :: string
  delivery_address :: string
  customer_notes :: "string option"
  status :: string
  created_at :: nat
  updated_at :: nat
  assigned_at :: "nat option"
  started_at :: "nat option"
  reached_at :: "nat option"
  collected_at :: "nat option"
  delivered_at :: "nat option"
  cancelled_at :: "nat option"
  cancellation_reason :: "string option"

definition can_chat :: "booking \<Rightarrow> bool" where
  "can_chat b =
     (delivery_partner_id b \<noteq> None
      \<and> status b \<in> set [''assigned'', ''started'', ''reached'', ''collected''])"

record booking_status_log =
  log_booking :: int
  log_status :: string
  log_changed_by :: "int option"
  log_notes :: "string option"
  log_created_at :: nat

text \<open>
  The database: the user and booking tables by primary key, the status log in the order
  of creation, and the next primary key of the booking table.
\<close>

record db =
  users :: "int \<rightharpoonup> user"
  bookings :: "int \<rightharpoonup> booking"
  status_logs :: "booking_status_log list"
  next_booking_id :: int


section \<open>Helpers (core/helpers.py)\<close>

definition is_admin_user :: "principal \<Rightarrow> bool" where
  "is_admin_user p =
     (case p of AnonymousUser \<Rightarrow> False
      | LoggedIn u \<Rightarrow> role u = ''admin'' \<or> is_superuser u)"

definition is_customer :: "principal \<Rightarrow> bool" where
  "is_customer p = (case p of AnonymousUser \<Rightarrow> False | LoggedIn u \<Rightarrow> role u = ''customer'')"

definition is_delivery_partner :: "principal \<Rightarrow> bool" where
  "is_delivery_partner p =
     (case p of AnonymousUser \<Rightarrow> False | LoggedIn u \<Rightarrow> role u = ''delivery_partner'')"

definition can_access_booking :: "principal \<Rightarrow> booking \<Rightarrow> bool" where
  "can_access_booking p b =
     (if is_admin_user p then True
      else if is_customer p \<and> Some (customer_id b) = principal_id p then True
      else if is_delivery_partner p \<and> delivery_partner_id b = principal_id p then True
      else False)"

definition can_cancel_booking :: "principal \<Rightarrow> booking \<Rightarrow> bool" where
  "can_cancel_booking p b =
     (if \<not> is_customer p \<or> Some (customer_id b) \<noteq> principal_id p then False
      else if status b \<in> set [''delivered'', ''cancelled''] then False
      else True)"

definition can_update_booking_status :: "principal \<Rightarrow> booking \<Rightarrow> bool" where
  "can_update_booking_status p b =
     (if is_admin_user p then True
      else if is_delivery_partner p \<and> delivery_partner_id b = principal_id p then True
      else False)"

definition get_next_booking_status :: "string \<Rightarrow> string option" where
  "get_next_booking_status current_status =
     map_of [(''pending'', ''assigned''), (''assigned'', ''started''), (''started'', ''reached''),
             (''reached'', ''collected''), (''collected'', ''delivered'')] current_status"


section \<open>The booking views\<close>

text \<open>
  A view answers with a redirect to a named route of a booking together with the message
  it flashes, with the page it renders and its message, or with one of the framework's
  answers: 404 when \<^verbatim>\<open>get_object_or_404\<close> finds no row, 403 or the redirect to the
  login page when the permission check fails, 500 when an exception escapes the view.

  After its last write a successful view also adds a row to the activity log, a table
  that no view reads and that the booking lifecycle does not depend on; the row is not
  modelled.
\<close>

datatype message = Error string | Success string

datatype response =
  Redirect string int message
| Render string message
| Http404
| Http403
| RedirectToLogin
| Http500

fun succeeded :: "response \<Rightarrow> bool" where
  "succeeded (Redirect route booking_id (Success text)) = True"
| "succeeded r = False"

text \<open>\<^verbatim>\<open>request.POST.get(key, default)\<close>.\<close>

definition post_get :: "(string \<rightharpoonup> string) \<Rightarrow> string \<Rightarrow> string \<Rightarrow> string" where
  "post_get POST k d = (case POST k of None \<Rightarrow> d | Some v \<Rightarrow> v)"

text \<open>
  The framework's \<^verbatim>\<open>PermissionRequiredMixin\<close>, in front of every view below: a request
  without the permission is answered with 403 when the user is logged in and with the
  redirect to the login page otherwise; the anonymous user holds no permission.
\<close>

definition permission_required ::
  "string \<Rightarrow> principal \<Rightarrow> (user \<Rightarrow> db \<Rightarrow> response \<times> db) \<Rightarrow> db \<Rightarrow> response \<times> db" where
  "permission_required perm p post_handler d =
     (case p of
        AnonymousUser \<Rightarrow> (RedirectToLogin, d)
      | LoggedIn u \<Rightarrow> if perm \<in> set (perms u) then post_handler u d else (Http403, d))"

subsection \<open>customer/views.py\<close>

definition create_booking_post ::
  "nat \<Rightarrow> (string \<rightharpoonup> string) \<Rightarrow> user \<Rightarrow> db \<Rightarrow> response \<times> db" where
  "create_booking_post now POST u d =
     (let pickup = strip (post_get POST ''pickup_address'' '''');
          delivery = strip (post_get POST ''delivery_address'' '''');
          notes = strip (post_get POST ''customer_notes'' '''')
      in
      if pickup = [] \<or> delivery = [] then
        (Render ''customer/create_booking.html''
           (Error ''Please provide both pickup and delivery addresses''), d)
      else
        let new_id = next_booking_id d;
            b = \<lparr>customer_id = user_id u, delivery_partner_id = None,
                 pickup_address = pickup, delivery_address = delivery,
                 customer_notes = Some notes, status = ''pending'',
                 created_at = now, updated_at = now,
                 assigned_at = None, started_at = None, reached_at = None,
                 collected_at = None, delivered_at = None, cancelled_at = None,
                 cancellation_reason = None\<rparr>;
            entry = \<lparr>log_booking = new_id, log_status = ''pending'',
                     log_changed_by = Some (user_id u), log_notes = Some ''Booking created'',
                     log_created_at = now\<rparr>
        in
        (Redirect ''customer:view_booking'' new_id (Success ''Booking created successfully!''),
         d\<lparr>bookings := (bookings d)(new_id \<mapsto> b),
           status_logs := status_logs d @ [entry],
           next_booking_id := new_id + 1\<rparr>))"

definition CreateBookingView ::
  "nat \<Rightarrow> principal \<Rightarrow> (string \<rightharpoonup> string) \<Rightarrow> db \<Rightarrow> response \<times> db" where
  "CreateBookingView now p POST d =
     permission_required ''core.add_booking'' p (create_booking_post now POST) d"

definition cancel_booking_post ::
  "nat \<Rightarrow> int \<Rightarrow> (string \<rightharpoonup> string) \<Rightarrow> user \<Rightarrow> db \<Rightarrow> response \<times> db" where
  "cancel_booking_post now booking_id POST u d =
     (case bookings d booking_id of
        None \<Rightarrow> (Http404, d)
      | Some b \<Rightarrow>
          if \<not> can_cancel_booking (LoggedIn u) b then
            (Redirect ''customer:view_booking'' booking_id
               (Error ''You cannot cancel this booking''), d)
          else
            let reason = strip (post_get POST ''cancellation_reason'' '''');
                b' = b\<lparr>status := ''cancelled'', cancelled_at := Some now,
                       cancellation_reason := Some reason, updated_at := now\<rparr>;
                entry = \<lparr>log_booking = booking_id, log_status = ''cancelled'',
                         log_changed_by = Some (user_id u), log_notes = Some reason,
                         log_created_at = now\<rparr>
            in
            (Redirect ''customer:view_booking'' booking_id
               (Success ''Booking cancelled successfully''),
             d\<lparr>bookings := (bookings d)(booking_id \<mapsto> b'),
               status_logs := status_logs d @ [entry]\<rparr>))"

definition CancelBookingView ::
  "nat \<Rightarrow> principal \<Rightarrow> int \<Rightarrow> (string \<rightharpoonup> string) \<Rightarrow> db \<Rightarrow> response \<times> db" where
  "CancelBookingView now p booking_id POST d =
     permission_required ''core.change_booking'' p (cancel_booking_post now booking_id POST) d"

subsection \<open>administrator/views.py\<close>

text \<open>
  \<^verbatim>\<open>get_object_or_404(User, id=delivery_partner_id, role='delivery_partner')\<close> is given the
  submitted text. The framework turns it into a number with Python's \<^verbatim>\<open>int\<close>, here the
  parameter \<open>to_int\<close>; a text that is no number raises \<^verbatim>\<open>ValueError\<close>, which the view
  does not catch.
\<close>

definition assign_booking_post ::
  "(string \<Rightarrow> int option) \<Rightarrow> nat \<Rightarrow> int \<Rightarrow> (string \<rightharpoonup> string) \<Rightarrow> user \<Rightarrow> db
     \<Rightarrow> response \<times> db" where
  "assign_booking_post to_int now booking_id POST u d =
     (case bookings d booking_id of
        None \<Rightarrow> (Http404, d)
      | Some b \<Rightarrow>
          let no_partner = (Redirect ''administrator:view_booking'' booking_id
                              (Error ''Please select a delivery partner''), d)
          in
          (case POST ''delivery_partner_id'' of
             None \<Rightarrow> no_partner
           | Some submitted_id \<Rightarrow>
               if submitted_id = [] then no_partner
               else
                 (case to_int submitted_id of
                    None \<Rightarrow> (Http500, d)
                  | Some partner_id \<Rightarrow>
                      (case users d partner_id of
                         None \<Rightarrow> (Http404, d)
                       | Some delivery_partner \<Rightarrow>
                           if role delivery_partner \<noteq> ''delivery_partner'' then (Http404, d)
                           else
                             let b' = b\<lparr>delivery_partner_id := Some (user_id delivery_partner),
                                        status := ''assigned'', assigned_at := Some now,
                                        updated_at := now\<rparr>;
                                 entry = \<lparr>log_booking = booking_id, log_status = ''assigned'',
                                          log_changed_by = Some (user_id u),
                                          log_notes =
                                            Some (''Assigned to '' @ get_full_name delivery_partner),
                                          log_created_at = now\<rparr>
                             in
                             (Redirect ''administrator:view_booking'' booking_id
                                (Success (''Booking assigned to ''
                                           @ get_full_name delivery_partner)),
                              d\<lparr>bookings := (bookings d)(booking_id \<mapsto> b'),
                                status_logs := status_logs d @ [entry]\<rparr>)))))"

definition AssignBookingView ::
  "(string \<Rightarrow> int option) \<Rightarrow> nat \<Rightarrow> principal \<Rightarrow> int \<Rightarrow> (string \<rightharpoonup> string) \<Rightarrow> db
     \<Rightarrow> response \<times> db" where
  "AssignBookingView to_int now p booking_id POST d =
     permission_required ''core.change_booking'' p
       (assign_booking_post to_int now booking_id POST) d"

subsection \<open>delivery\_partner/views.py\<close>

definition valid_statuses :: "string list" where
  "valid_statuses = [''started'', ''reached'', ''collected'', ''delivered'']"

definition stamp :: "string \<Rightarrow> nat \<Rightarrow> booking \<Rightarrow> booking" where
  "stamp new_status now b =
     (if new_status = ''started'' then b\<lparr>started_at := Some now\<rparr>
      else if new_status = ''reached'' then b\<lparr>reached_at := Some now\<rparr>
      else if new_status = ''collected'' then b\<lparr>collected_at := Some now\<rparr>
      else if new_status = ''delivered'' then b\<lparr>delivered_at := Some now\<rparr>
      else b)"

definition update_booking_status_post ::
  "nat \<Rightarrow> int \<Rightarrow> (string \<rightharpoonup> string) \<Rightarrow> user \<Rightarrow> db \<Rightarrow> response \<times> db" where
  "update_booking_status_post now booking_id POST u d =
     (case bookings d booking_id of
        None \<Rightarrow> (Http404, d)
      | Some b \<Rightarrow>
          if \<not> can_update_booking_status (LoggedIn u) b then
            (Redirect ''delivery_partner:view_delivery'' booking_id
               (Error ''You cannot update this booking status''), d)
          else
            let new_status = strip (post_get POST ''status'' '''');
                notes = strip (post_get POST ''notes'' '''')
            in
            if new_status \<notin> set valid_statuses then
              (Redirect ''delivery_partner:view_delivery'' booking_id (Error ''Invalid status''), d)
            else
              let b' = (stamp new_status now (b\<lparr>status := new_status\<rparr>))\<lparr>updated_at := now\<rparr>;
                  entry = \<lparr>log_booking = booking_id, log_status = new_status,
                           log_changed_by = Some (user_id u), log_notes = Some notes,
                           log_created_at = now\<rparr>
              in
              (Redirect ''delivery_partner:view_delivery'' booking_id
                 (Success (''Booking status updated to '' @ new_status)),
               d\<lparr>bookings := (bookings d)(booking_id \<mapsto> b'),
                 status_logs := status_logs d @ [entry]\<rparr>))"

definition UpdateBookingStatusView ::
  "nat \<Rightarrow> principal \<Rightarrow> int \<Rightarrow> (string \<rightharpoonup> string) \<Rightarrow> db \<Rightarrow> response \<times> db" where
  "UpdateBookingStatusView now p booking_id POST d =
     permission_required ''core.change_booking'' p
       (update_booking_status_post now booking_id POST) d"


section \<open>Invariants and scenarios of the booking lifecycle\<close>

text \<open>
  The invariant of the specification on one booking: without a delivery partner the
  status is pending.
\<close>

definition unassigned_is_pending :: "booking \<Rightarrow> bool" where
  "unassigned_is_pending b = (delivery_partner_id b = None \<longrightarrow> status b = ''pending'')"

text \<open>
  The invariant the views keep: a booking that is neither pending nor cancelled has a
  delivery partner; on the database, every booking row satisfies it.
\<close>

definition partner_assigned :: "booking \<Rightarrow> bool" where
  "partner_assigned b =
     (status b \<in> {''pending'', ''cancelled''} \<or> delivery_partner_id b \<noteq> None)"

definition partner_invariant :: "db \<Rightarrow> bool" where
  "partner_invariant d = (\<forall>b \<in> ran (bookings d). partner_assigned b)"

text \<open>
  A small deployment: a customer, an active and an inactive delivery partner and an
  administrator, each with the permissions of their group; no booking yet.
\<close>

definition alice :: user where
  "alice = \<lparr>user_id = 1, mobile_number = ''+911234567890'', first_name = Some ''Alice'',
            last_name = Some ''Rao'', role = ''customer'', is_active = True,
            is_superuser = False,
            perms = [''core.add_booking'', ''core.view_booking'', ''core.change_booking'']\<rparr>"

definition pat :: user where
  "pat = \<lparr>user_id = 7, mobile_number = ''+919876543210'', first_name = Some ''Pat'',
          last_name = None, role = ''delivery_partner'', is_active = True,
          is_superuser = False, perms = [''core.view_booking'', ''core.change_booking'']\<rparr>"

definition quinn :: user where
  "quinn = \<lparr>user_id = 8, mobile_number = ''+919000000008'', first_name = None,
            last_name = None, role = ''delivery_partner'', is_active = False,
            is_superuser = False, perms = []\<rparr>"

definition root :: user where
  "root = \<lparr>user_id = 9, mobile_number = ''+admin_0123456789'', first_name = None,
           last_name = None, role = ''admin'', is_active = True,
           is_superuser = True, perms = [''core.view_booking'', ''core.change_booking'']\<rparr>"

definition to_int0 :: "string \<Rightarrow> int option" where
  "to_int0 = map_of [(''7'', 7), (''8'', 8), (''9'', 9)]"

definition db0 :: db where
  "db0 = \<lparr>users = [1 \<mapsto> alice, 7 \<mapsto> pat, 8 \<mapsto> quinn, 9 \<mapsto> root],
          bookings = Map.empty, status_logs = [], next_booking_id = 1\<rparr>"

text \<open>Alice creates booking 1; the administrator assigns it to Pat; Pat reports it delivered.\<close>

definition db_created :: db where
  "db_created = snd (CreateBookingView 10 (LoggedIn alice)
       [''pickup_address'' \<mapsto> ''12 Mill Lane'', ''delivery_address'' \<mapsto> ''3 Quay Street''] db0)"

definition db_assigned :: db where
  "db_assigned = snd (AssignBookingView to_int0 20 (LoggedIn root) 1
       [''delivery_partner_id'' \<mapsto> ''7''] db_created)"

definition db_delivered :: db where
  "db_delivered = snd (UpdateBookingStatusView 30 (LoggedIn pat) 1
       [''status'' \<mapsto> ''delivered''] db_assigned)"

text \<open>The row of booking 1 after each of the three steps.\<close>

definition booking_created :: booking where
  "booking_created =
     \<lparr>customer_id = 1, delivery_partner_id = None,
      pickup_address = ''12 Mill Lane'', delivery_address = ''3 Quay Street'',
      customer_notes = Some '''', status = ''pending'', created_at = 10, updated_at = 10,
      assigned_at = None, started_at = None, reached_at = None, collected_at = None,
      delivered_at = None, cancelled_at = None, cancellation_reason = None\<rparr>"

definition booking_assigned :: booking where
  "booking_assigned =
     booking_created\<lparr>delivery_partner_id := Some 7, status := ''assigned'',
                      assigned_at := Some 20, updated_at := 20\<rparr>"

definition booking_delivered :: booking where
  "booking_delivered =
     booking_assigned\<lparr>status := ''delivered'', delivered_at := Some 30, updated_at := 30\<rparr>"

definition log_created :: booking_status_log where
  "log_created = \<lparr>log_booking = 1, log_status = ''pending'', log_changed_by = Some 1,
                  log_notes = Some ''Booking created'', log_created_at = 10\<rparr>"

definition log_assigned :: booking_status_log where
  "log_assigned = \<lparr>log_booking = 1, log_status = ''assigned'', log_changed_by = Some 9,
                   log_notes = Some ''Assigned to +919876543210'', log_created_at = 20\<rparr>"

definition log_delivered :: booking_status_log where
  "log_delivered = \<lparr>log_booking = 1, log_status = ''delivered'', log_changed_by = Some 7,
                    log_notes = Some '''', log_created_at = 30\<rparr>"

section \<open>Properties of the OTP manager\<close>

subsection \<open>Keys, cache reads and the branches of verify\_otp and create\_otp\<close>

text \<open>
  The three key families are disjoint, and the code key determines the number: the
  split of the cache into three typed families loses nothing.
\<close>

lemma get_otp_key_inj: "get_otp_key a = get_otp_key b \<Longrightarrow> a = b"
  by (simp add: get_otp_key_def)

lemma otp_keys_distinct:
  "get_otp_key a \<noteq> get_attempts_key b"
  "get_otp_key a \<noteq> get_verified_key b"
  "get_attempts_key a \<noteq> get_verified_key b"
  by (simp_all add: get_otp_key_def get_attempts_key_def get_verified_key_def)

lemma cache_get_absent: "c k = None \<Longrightarrow> cache_get c now k = None"
  by (simp add: cache_get_def)

lemma verify_otp_no_code:
  "cache_get (otp_store c) now (get_otp_key m) = None \<Longrightarrow> verify_otp now m s c = (expired_result, c)"
  by (simp add: verify_otp_def)

lemma verify_otp_max_attempts:
  assumes "cache_get (otp_store c) now (get_otp_key m) = Some code" "code \<noteq> []"
    and "MAX_ATTEMPTS \<le> cache_get_default (attempts_store c) now (get_attempts_key m) 0"
  shows "verify_otp now m s c =
     (max_attempts_result,
      c\<lparr>otp_store := cache_delete (otp_store c) (get_otp_key m),
        attempts_store := cache_delete (attempts_store c) (get_attempts_key m)\<rparr>)"
  using assms by (simp add: verify_otp_def Let_def)

lemma verify_otp_match:
  assumes "cache_get (otp_store c) now (get_otp_key m) = Some code" and "code \<noteq> []"
    and "cache_get_default (attempts_store c) now (get_attempts_key m) 0 < MAX_ATTEMPTS"
    and "strip submitted = strip code"
  shows "verify_otp now m submitted c =
     (verified_result,
      c\<lparr>verified_store := cache_set (verified_store c) now (get_verified_key m) True 600,
        otp_store := cache_delete (otp_store c) (get_otp_key m),
        attempts_store := cache_delete (attempts_store c) (get_attempts_key m)\<rparr>)"
  using assms by (simp add: verify_otp_def Let_def)

lemma verify_result_distinct:
  "expired_result \<noteq> max_attempts_result"
  "verified_result \<noteq> max_attempts_result"
  "invalid_result n \<noteq> max_attempts_result"
  by (simp_all add: expired_result_def max_attempts_result_def verified_result_def invalid_result_def)

lemma verify_otp_max_attempts_state:
  assumes "fst (verify_otp now m s c) = max_attempts_result"
  shows "snd (verify_otp now m s c) =
      c\<lparr>otp_store := cache_delete (otp_store c) (get_otp_key m),
        attempts_store := cache_delete (attempts_store c) (get_attempts_key m)\<rparr>"
  using assms
  by (auto simp: verify_otp_def Let_def verify_result_distinct split: option.splits if_splits)

lemma create_otp_no_code:
  assumes "\<not> truthy (cache_get (otp_store c) now (get_otp_key m))"
  shows "create_otp debug rnd now m c =
      (\<lparr>cr_success = True, cr_otp = Some (generate_otp debug rnd),
        cr_message = ''OTP generated successfully'', cr_expires_in = OTP_EXPIRY\<rparr>,
       c\<lparr>otp_store := cache_set (otp_store c) now (get_otp_key m) (generate_otp debug rnd) OTP_EXPIRY,
         attempts_store := cache_delete (attempts_store c) (get_attempts_key m),
         verified_store := cache_delete (verified_store c) (get_verified_key m)\<rparr>)"
  using assms by (simp add: create_otp_def Let_def)

text \<open>
  A call other than issuing a code for \<open>m\<close> never creates the code key of \<open>m\<close>.
\<close>

lemma otp_step_keeps_absent:
  assumes "otp_store c (get_otp_key m) = None" "\<not> issues m (snd x)"
  shows "otp_store (otp_step debug x c) (get_otp_key m) = None"
proof (cases x)
  case (Pair now call)
  show ?thesis
  proof (cases call)
    case (IssueCode rnd m')
    with Pair assms show ?thesis
      by (auto simp: create_otp_def Let_def cache_set_def dest: get_otp_key_inj)
  next
    case (VerifyCode m' otp)
    with Pair assms show ?thesis
      by (auto simp: verify_otp_def Let_def cache_delete_def split: option.splits)
  next
    case (ClearVerified m')
    with Pair assms show ?thesis
      by (simp add: clear_verification_def)
  qed
qed

lemma otp_exec_keeps_absent:
  "otp_store c (get_otp_key m) = None \<Longrightarrow> \<forall>x\<in>set calls. \<not> issues m (snd x) \<Longrightarrow>
   otp_store (otp_exec debug calls c) (get_otp_key m) = None"
proof (induction calls arbitrary: c)
  case Nil
  then show ?case by simp
next
  case (Cons x xs)
  then show ?case by (simp add: otp_step_keeps_absent)
qed

subsection \<open>The scenario caches\<close>

lemma strip_digits: "strip ''1234'' = ''1234''" "strip ''0000'' = ''0000''" "strip ''1111'' = ''1111''" "strip ''2222'' = ''2222''"
  by (simp_all add: strip_def isspace_def)

lemma strip_padded:
  "strip '' 1234 '' = ''1234''"
  "strip (CHR 0xA0 # ''1234 '') = ''1234''"
  "strip (CHR 0x85 # ''1234'') = ''1234''"
  by (simp_all add: strip_def isspace_def)

lemma locked_cache_eq: "locked_cache =
   \<lparr>otp_store = [get_otp_key ''+911234567890'' \<mapsto> (''1234'', 300)],
    attempts_store = [get_attempts_key ''+911234567890'' \<mapsto> (3, 303)],
    verified_store = Map.empty\<rparr>"
  by (simp add: locked_cache_def create_otp_def verify_otp_def Let_def empty_cache_def
      cache_get_def cache_get_default_def cache_set_def cache_delete_def generate_otp_def
      STATIC_OTP_def OTP_EXPIRY_def MAX_ATTEMPTS_def strip_digits)

lemma locked_verify: "verify_otp 4 ''+911234567890'' ''1234'' locked_cache =
   (max_attempts_result, empty_cache)"
  by (simp add: locked_cache_eq verify_otp_def Let_def cache_get_def cache_get_default_def
       MAX_ATTEMPTS_def cache_delete_def empty_cache_def)

lemma issued_cache_eq: "issued_cache =
   \<lparr>otp_store = [get_otp_key ''+911234567890'' \<mapsto> (''1234'', 300)],
    attempts_store = Map.empty, verified_store = Map.empty\<rparr>"
  by (simp add: issued_cache_def create_otp_def Let_def empty_cache_def
      cache_get_def cache_set_def cache_delete_def generate_otp_def
      STATIC_OTP_def OTP_EXPIRY_def)

lemma random_otp_zero: "random_otp (\<lambda>i. 0) = ''0000''"
  by (simp add: random_otp_def OTP_LENGTH_def digits_def upt_rec)

lemma random_otp_five: "random_otp (\<lambda>i. 5) = ''5555''"
  by (simp add: random_otp_def OTP_LENGTH_def digits_def upt_rec)

lemma random_otp_shape: "length (random_otp rnd) = OTP_LENGTH \<and> set (random_otp rnd) \<subseteq> set digits"
proof -
  have "digits ! (k mod length digits) \<in> set digits" for k
    by (rule nth_mem) (simp add: digits_def)
  then show ?thesis
    by (auto simp: random_otp_def)
qed

subsection \<open>Lockout after three wrong attempts\<close>

text \<open>
  Claim C5. In a state where the code of a mobile number is live and its attempt counter
  reads 3 or more, \<open>verify_otp\<close> fails with the max-attempts result whatever value is
  submitted (a correct one included) and leaves the verified flag as it was. The lockout
  lasts until a code is issued for the number: after any sequence of calls none of which
  issues a code for it, a further \<open>verify_otp\<close> for the number still fails, now with the
  expired/not-found result.
\<close>

theorem verify_otp_lockout:
  assumes "cache_get (otp_store c) now (get_otp_key m) = Some code" and "code \<noteq> []"
    and "MAX_ATTEMPTS \<le> cache_get_default (attempts_store c) now (get_attempts_key m) 0"
    and "\<forall>x\<in>set calls. \<not> issues m (snd x)"
  shows "fst (verify_otp now m submitted c) = max_attempts_result
       \<and> verified_store (snd (verify_otp now m submitted c)) = verified_store c
       \<and> fst (verify_otp later m submitted'
                (otp_exec debug calls (snd (verify_otp now m submitted c)))) = expired_result"
proof -
  let ?c' = "snd (verify_otp now m submitted c)"
  have r: "verify_otp now m submitted c =
     (max_attempts_result,
      c\<lparr>otp_store := cache_delete (otp_store c) (get_otp_key m),
        attempts_store := cache_delete (attempts_store c) (get_attempts_key m)\<rparr>)"
    using assms(1-3) by (rule verify_otp_max_attempts)
  have gone: "otp_store ?c' (get_otp_key m) = None"
    by (simp add: r cache_delete_def)
  have "otp_store (otp_exec debug calls ?c') (get_otp_key m) = None"
    using gone assms(4) by (rule otp_exec_keeps_absent)
  then have "verify_otp later m submitted' (otp_exec debug calls ?c')
             = (expired_result, otp_exec debug calls ?c')"
    by (simp add: verify_otp_no_code cache_get_absent)
  then show ?thesis by (simp add: r)
qed

text \<open>
  The theorem at the scenario of the specification: one code issued, three wrong
  submissions, then the right code; afterwards another verification and a code issued
  for a different number.
\<close>

theorem verify_otp_lockout_witness:
  "cache_get (otp_store locked_cache) 4 (get_otp_key ''+911234567890'') = Some ''1234''
   \<and> ''1234'' \<noteq> []
   \<and> MAX_ATTEMPTS \<le> cache_get_default (attempts_store locked_cache) 4 (get_attempts_key ''+911234567890'') 0
   \<and> \<not> issues ''+911234567890'' (VerifyCode ''+911234567890'' ''1234'')
   \<and> \<not> issues ''+911234567890'' (IssueCode (\<lambda>i. 0) ''+910000000000'')
   \<and> fst (verify_otp 4 ''+911234567890'' ''1234'' locked_cache) = max_attempts_result
   \<and> verified_store (snd (verify_otp 4 ''+911234567890'' ''1234'' locked_cache)) = verified_store locked_cache
   \<and> fst (verify_otp 7 ''+911234567890'' ''1234''
            (otp_exec True [(5, VerifyCode ''+911234567890'' ''1234''),
                            (6, IssueCode (\<lambda>i. 0) ''+910000000000'')]
               (snd (verify_otp 4 ''+911234567890'' ''1234'' locked_cache)))) = expired_result"
proof -
  have h1: "cache_get (otp_store locked_cache) 4 (get_otp_key ''+911234567890'') = Some ''1234''"
    by (simp add: locked_cache_eq cache_get_def)
  have h2: "''1234'' \<noteq> []" by simp
  have h3: "MAX_ATTEMPTS \<le> cache_get_default (attempts_store locked_cache) 4
              (get_attempts_key ''+911234567890'') 0"
    by (simp add: locked_cache_eq cache_get_default_def cache_get_def MAX_ATTEMPTS_def)
  have h4: "\<forall>x\<in>set [(5::nat, VerifyCode ''+911234567890'' ''1234''),
                      (6, IssueCode (\<lambda>i. 0) ''+910000000000'')].
              \<not> issues ''+911234567890'' (snd x)"
    by simp
  show ?thesis
    using h1 h3 verify_otp_lockout [OF h1 h2 h3 h4, of "''1234''" 7 "''1234''" True]
    by simp
qed

subsection \<open>The max-attempts failure clears the challenge\<close>

text \<open>
  Claim C10. When \<open>verify_otp\<close> returns the max-attempts result, the code and attempts
  keys of the number are gone from the cache. So the next \<open>verify_otp\<close> for the number
  returns the expired/not-found result, not the max-attempts one, and the next
  \<open>create_otp\<close> for the number succeeds and returns a fresh code.
\<close>

theorem max_attempts_clears_challenge:
  assumes "fst (verify_otp now m submitted c) = max_attempts_result"
  shows "otp_store (snd (verify_otp now m submitted c)) (get_otp_key m) = None
       \<and> attempts_store (snd (verify_otp now m submitted c)) (get_attempts_key m) = None
       \<and> fst (verify_otp next m submitted' (snd (verify_otp now m submitted c))) = expired_result
       \<and> fst (verify_otp next m submitted' (snd (verify_otp now m submitted c))) \<noteq> max_attempts_result
       \<and> cr_success (fst (create_otp debug rnd next m (snd (verify_otp now m submitted c))))
       \<and> cr_otp (fst (create_otp debug rnd next m (snd (verify_otp now m submitted c))))
           = Some (generate_otp debug rnd)"
proof -
  let ?c' = "snd (verify_otp now m submitted c)"
  have st: "?c' = c\<lparr>otp_store := cache_delete (otp_store c) (get_otp_key m),
        attempts_store := cache_delete (attempts_store c) (get_attempts_key m)\<rparr>"
    using assms by (rule verify_otp_max_attempts_state)
  have gone: "otp_store ?c' (get_otp_key m) = None"
    by (simp add: st cache_delete_def)
  have gone': "attempts_store ?c' (get_attempts_key m) = None"
    by (simp add: st cache_delete_def)
  have nolive: "cache_get (otp_store ?c') next (get_otp_key m) = None"
    using gone by (rule cache_get_absent)
  have v: "verify_otp next m submitted' ?c' = (expired_result, ?c')"
    using nolive by (rule verify_otp_no_code)
  have "\<not> truthy (cache_get (otp_store ?c') next (get_otp_key m))"
    by (simp add: nolive)
  then have cr: "create_otp debug rnd next m ?c' =
      (\<lparr>cr_success = True, cr_otp = Some (generate_otp debug rnd),
        cr_message = ''OTP generated successfully'', cr_expires_in = OTP_EXPIRY\<rparr>,
       ?c'\<lparr>otp_store := cache_set (otp_store ?c') next (get_otp_key m) (generate_otp debug rnd) OTP_EXPIRY,
         attempts_store := cache_delete (attempts_store ?c') (get_attempts_key m),
         verified_store := cache_delete (verified_store ?c') (get_verified_key m)\<rparr>)"
    by (rule create_otp_no_code)
  show ?thesis
    using gone gone' by (simp add: v cr verify_result_distinct)
qed

theorem max_attempts_clears_challenge_witness:
  "fst (verify_otp 4 ''+911234567890'' ''1234'' locked_cache) = max_attempts_result
   \<and> otp_store (snd (verify_otp 4 ''+911234567890'' ''1234'' locked_cache)) (get_otp_key ''+911234567890'') = None
   \<and> attempts_store (snd (verify_otp 4 ''+911234567890'' ''1234'' locked_cache)) (get_attempts_key ''+911234567890'') = None
   \<and> fst (verify_otp 5 ''+911234567890'' ''1234'' (snd (verify_otp 4 ''+911234567890'' ''1234'' locked_cache))) = expired_result
   \<and> cr_success (fst (create_otp True (\<lambda>i. 0) 5 ''+911234567890'' (snd (verify_otp 4 ''+911234567890'' ''1234'' locked_cache))))"
proof -
  have h: "fst (verify_otp 4 ''+911234567890'' ''1234'' locked_cache) = max_attempts_result"
    by (simp add: locked_verify)
  show ?thesis
    using h max_attempts_clears_challenge [OF h, of 5 "''1234''" True "\<lambda>i. 0"]
    by simp
qed

subsection \<open>Verification with the right code\<close>

text \<open>
  Claim C6, as stated, at the scenario of the specification: after three wrong
  submissions the code of the number is still live and the submitted value equals it, yet
  \<open>verify_otp\<close> does not return success and sets no verified flag.
\<close>

theorem verify_otp_correct_code_counterexample:
  "cache_get (otp_store locked_cache) 4 (get_otp_key ''+911234567890'') = Some ''1234''
   \<and> strip ''1234'' = strip ''1234''
   \<and> \<not> vr_success (fst (verify_otp 4 ''+911234567890'' ''1234'' locked_cache))
   \<and> verified_store (snd (verify_otp 4 ''+911234567890'' ''1234'' locked_cache))
         (get_verified_key ''+911234567890'') = None"
  by (simp add: locked_verify max_attempts_result_def empty_cache_def)
     (simp add: locked_cache_eq cache_get_def)

text \<open>
  Claim C6, amended. For a mobile number whose code is live and whose attempt counter
  reads less than 3 (an absent counter reads 0), \<open>verify_otp\<close> with a submitted value
  equal to the stored code after trimming returns success, stores the verified flag with
  an expiry 600 seconds ahead, and deletes the code and attempts keys; a replay of the
  same value, at any instant, fails with the expired/not-found result.
\<close>

theorem verify_otp_correct_code:
  assumes "cache_get (otp_store c) now (get_otp_key m) = Some code" and "code \<noteq> []"
    and "cache_get_default (attempts_store c) now (get_attempts_key m) 0 < MAX_ATTEMPTS"
    and "strip submitted = strip code"
  shows "fst (verify_otp now m submitted c) = verified_result
       \<and> vr_success (fst (verify_otp now m submitted c))
       \<and> verified_store (snd (verify_otp now m submitted c)) (get_verified_key m)
           = Some (True, now + 600)
       \<and> otp_store (snd (verify_otp now m submitted c)) (get_otp_key m) = None
       \<and> attempts_store (snd (verify_otp now m submitted c)) (get_attempts_key m) = None
       \<and> fst (verify_otp replay m submitted (snd (verify_otp now m submitted c)))
           = expired_result"
proof -
  let ?c' = "snd (verify_otp now m submitted c)"
  have r: "verify_otp now m submitted c =
     (verified_result,
      c\<lparr>verified_store := cache_set (verified_store c) now (get_verified_key m) True 600,
        otp_store := cache_delete (otp_store c) (get_otp_key m),
        attempts_store := cache_delete (attempts_store c) (get_attempts_key m)\<rparr>)"
    using assms by (rule verify_otp_match)
  have gone: "otp_store ?c' (get_otp_key m) = None"
    by (simp add: r cache_delete_def)
  then have "cache_get (otp_store ?c') replay (get_otp_key m) = None"
    by (rule cache_get_absent)
  then have v: "verify_otp replay m submitted ?c' = (expired_result, ?c')"
    by (rule verify_otp_no_code)
  have ok: "vr_success verified_result" by (simp add: verified_result_def)
  show ?thesis
    using gone ok by (simp add: v) (simp add: r cache_set_def cache_delete_def)
qed

text \<open>
  The code is issued and then submitted with a no-break space in front and a blank
  behind.
\<close>

theorem verify_otp_correct_code_witness:
  "cache_get (otp_store issued_cache) 10 (get_otp_key ''+911234567890'') = Some ''1234''
   \<and> ''1234'' \<noteq> []
   \<and> cache_get_default (attempts_store issued_cache) 10 (get_attempts_key ''+911234567890'') 0 < MAX_ATTEMPTS
   \<and> strip (CHR 0xA0 # ''1234 '') = strip ''1234''
   \<and> vr_success (fst (verify_otp 10 ''+911234567890'' (CHR 0xA0 # ''1234 '') issued_cache))
   \<and> verified_store (snd (verify_otp 10 ''+911234567890'' (CHR 0xA0 # ''1234 '') issued_cache))
        (get_verified_key ''+911234567890'') = Some (True, 610)
   \<and> otp_store (snd (verify_otp 10 ''+911234567890'' (CHR 0xA0 # ''1234 '') issued_cache))
        (get_otp_key ''+911234567890'') = None
   \<and> attempts_store (snd (verify_otp 10 ''+911234567890'' (CHR 0xA0 # ''1234 '') issued_cache))
        (get_attempts_key ''+911234567890'') = None
   \<and> fst (verify_otp 10 ''+911234567890'' (CHR 0xA0 # ''1234 '')
           (snd (verify_otp 10 ''+911234567890'' (CHR 0xA0 # ''1234 '') issued_cache))) = expired_result"
proof -
  have h1: "cache_get (otp_store issued_cache) 10 (get_otp_key ''+911234567890'') = Some ''1234''"
    by (simp add: issued_cache_eq cache_get_def)
  have h2: "''1234'' \<noteq> []" by simp
  have h3: "cache_get_default (attempts_store issued_cache) 10
              (get_attempts_key ''+911234567890'') 0 < MAX_ATTEMPTS"
    by (simp add: issued_cache_eq cache_get_default_def cache_get_def MAX_ATTEMPTS_def)
  have h4: "strip (CHR 0xA0 # ''1234 '') = strip ''1234''"
    by (simp add: strip_padded strip_digits)
  show ?thesis
    using h1 h3 h4 verify_otp_correct_code [OF h1 h2 h3 h4, of 10]
    by (simp add: verified_result_def)
qed

subsection \<open>Issuing a code in a development deployment\<close>

text \<open>
  Claim C7, as stated, fails: with \<^verbatim>\<open>DEBUG\<close> on, the code returned for a number with
  no live code does not depend on the random source. Two sources whose random codes are
  \<open>0000\<close> and \<open>5555\<close> both give \<open>1234\<close>.
\<close>

theorem create_otp_debug_counterexample:
  "\<not> truthy (cache_get (otp_store empty_cache) 0 (get_otp_key ''+911234567890''))
   \<and> cr_otp (fst (create_otp True (\<lambda>i. 0) 0 ''+911234567890'' empty_cache)) = Some ''1234''
   \<and> cr_otp (fst (create_otp True (\<lambda>i. 5) 0 ''+911234567890'' empty_cache)) = Some ''1234''
   \<and> random_otp (\<lambda>i. 0) = ''0000''
   \<and> random_otp (\<lambda>i. 5) = ''5555''"
  by (simp add: random_otp_zero random_otp_five)
     (simp add: create_otp_def Let_def empty_cache_def cache_get_def generate_otp_def STATIC_OTP_def)

text \<open>
  At the very instant of expiry the code is still in the store: a request for a new code
  is refused, and the code can still be verified.
\<close>

lemma create_otp_at_expiry_instant:
  "cr_success (fst (create_otp True rnd 300 ''+911234567890'' issued_cache)) = False
   \<and> cr_message (fst (create_otp True rnd 300 ''+911234567890'' issued_cache))
       = ''OTP already sent. Please wait before requesting a new one.''
   \<and> fst (verify_otp 300 ''+911234567890'' ''1234'' issued_cache) = verified_result
   \<and> cr_success (fst (create_otp True rnd 301 ''+911234567890'' issued_cache))"
  by (simp add: issued_cache_eq create_otp_def verify_otp_def Let_def cache_get_def
      cache_get_default_def MAX_ATTEMPTS_def strip_digits)

text \<open>
  Claim C7, amended. With \<^verbatim>\<open>DEBUG\<close> on, \<open>create_otp\<close> for a number with no live code
  succeeds, returns the fixed 4-digit code \<open>1234\<close> and stores it with a time-to-live of
  300 seconds: the entry expires at \<open>now + 300\<close>, is readable up to that instant and gone
  one second later.
\<close>

theorem create_otp_debug:
  assumes "\<not> truthy (cache_get (otp_store c) now (get_otp_key m))"
  shows "cr_success (fst (create_otp True rnd now m c))
       \<and> cr_otp (fst (create_otp True rnd now m c)) = Some ''1234''
       \<and> cr_expires_in (fst (create_otp True rnd now m c)) = 300
       \<and> otp_store (snd (create_otp True rnd now m c)) (get_otp_key m) = Some (''1234'', now + 300)
       \<and> cache_ttl (otp_store (snd (create_otp True rnd now m c))) now (get_otp_key m) = 300
       \<and> cache_get (otp_store (snd (create_otp True rnd now m c))) (now + 300) (get_otp_key m) = Some ''1234''
       \<and> cache_get (otp_store (snd (create_otp True rnd now m c))) (now + 301) (get_otp_key m) = None"
  by (simp add: create_otp_no_code [OF assms] generate_otp_def STATIC_OTP_def OTP_EXPIRY_def
      cache_set_def cache_ttl_def cache_get_def)

theorem create_otp_debug_witness:
  "\<not> truthy (cache_get (otp_store empty_cache) 0 (get_otp_key ''+911234567890''))
   \<and> cr_success (fst (create_otp True (\<lambda>i. 7) 0 ''+911234567890'' empty_cache))
   \<and> cr_otp (fst (create_otp True (\<lambda>i. 7) 0 ''+911234567890'' empty_cache)) = Some ''1234''
   \<and> otp_store (snd (create_otp True (\<lambda>i. 7) 0 ''+911234567890'' empty_cache))
        (get_otp_key ''+911234567890'') = Some (''1234'', 300)
   \<and> cache_get (otp_store (snd (create_otp True (\<lambda>i. 7) 0 ''+911234567890'' empty_cache)))
        300 (get_otp_key ''+911234567890'') = Some ''1234''
   \<and> cache_get (otp_store (snd (create_otp True (\<lambda>i. 7) 0 ''+911234567890'' empty_cache)))
        301 (get_otp_key ''+911234567890'') = None"
proof -
  have h: "\<not> truthy (cache_get (otp_store empty_cache) 0 (get_otp_key ''+911234567890''))"
    by (simp add: empty_cache_def cache_get_def)
  show ?thesis
    using h create_otp_debug [OF h, of "\<lambda>i. 7"] by simp
qed

section \<open>Properties of the booking lifecycle\<close>

subsection \<open>The scenario, evaluated\<close>

lemma strip_words:
  "strip '''' = ''''"
  "strip ''12 Mill Lane'' = ''12 Mill Lane''"
  "strip ''3 Quay Street'' = ''3 Quay Street''"
  "strip ''started'' = ''started''"
  "strip ''delivered'' = ''delivered''"
  "strip ''collected'' = ''collected''"
  "strip ''assigned'' = ''assigned''"
  by (simp_all add: strip_def isspace_def)

lemma strip_more:
  "strip '' collected '' = ''collected''"
  "strip ''at the door'' = ''at the door''"
  "strip ''changed plans'' = ''changed plans''"
  by (simp_all add: strip_def isspace_def)

lemma db_created_eq:
  "db_created = db0\<lparr>bookings := [1 \<mapsto> booking_created], status_logs := [log_created],
                     next_booking_id := 2\<rparr>"
  by (simp add: db_created_def CreateBookingView_def permission_required_def alice_def
      create_booking_post_def post_get_def strip_words Let_def db0_def booking_created_def
      log_created_def)

lemma db_assigned_eq:
  "db_assigned = db0\<lparr>bookings := [1 \<mapsto> booking_assigned],
                      status_logs := [log_created, log_assigned], next_booking_id := 2\<rparr>"
  by (simp add: db_assigned_def db_created_eq AssignBookingView_def permission_required_def
      root_def assign_booking_post_def to_int0_def Let_def db0_def pat_def get_full_name_def
      booking_assigned_def log_assigned_def)

lemma db_delivered_eq:
  "db_delivered = db0\<lparr>bookings := [1 \<mapsto> booking_delivered],
                       status_logs := [log_created, log_assigned, log_delivered],
                       next_booking_id := 2\<rparr>"
  by (simp add: db_delivered_def db_assigned_eq UpdateBookingStatusView_def
      permission_required_def pat_def update_booking_status_post_def
      can_update_booking_status_def is_admin_user_def is_delivery_partner_def
      booking_assigned_def post_get_def strip_words valid_statuses_def stamp_def Let_def
      booking_delivered_def log_delivered_def)

subsection \<open>Chat availability\<close>

text \<open>
  Claim C8. \<open>can_chat\<close> holds exactly when the booking has a delivery partner and its
  status is one of assigned, started, reached and collected; in particular it is false
  whenever the status is pending, delivered or cancelled.
\<close>

theorem can_chat_iff:
  "(can_chat b \<longleftrightarrow>
      delivery_partner_id b \<noteq> None
      \<and> status b \<in> {''assigned'', ''started'', ''reached'', ''collected''})
   \<and> (status b \<in> {''pending'', ''delivered'', ''cancelled''} \<longrightarrow> \<not> can_chat b)"
  by (auto simp: can_chat_def)

text \<open>
  The delivered booking of the scenario has a partner and cannot chat; the assigned one
  can.
\<close>

theorem can_chat_iff_witness:
  "status booking_delivered \<in> {''pending'', ''delivered'', ''cancelled''}
   \<and> delivery_partner_id booking_delivered \<noteq> None
   \<and> \<not> can_chat booking_delivered
   \<and> can_chat booking_assigned"
  using can_chat_iff [of booking_delivered] can_chat_iff [of booking_assigned]
  by (simp add: booking_delivered_def booking_assigned_def booking_created_def)

subsection \<open>Cancellation by somebody else\<close>

lemma can_cancel_booking_owner:
  "can_cancel_booking p b \<Longrightarrow> principal_id p = Some (customer_id b)"
  by (auto simp: can_cancel_booking_def split: if_splits)

text \<open>
  Claim C9. For a booking and a user who is not its owning customer, the cancel view
  fails with a denial of access (the redirect to the login page for the anonymous user,
  403 without the permission, the error message of the view otherwise) and returns the
  database as it was: status, \<open>cancelled_at\<close>, \<open>cancellation_reason\<close> and the status log
  are unchanged.
\<close>

theorem cancel_by_non_owner:
  assumes "bookings d booking_id = Some b"
    and "principal_id p \<noteq> Some (customer_id b)"
  shows "fst (CancelBookingView now p booking_id POST d)
           \<in> {RedirectToLogin, Http403,
              Redirect ''customer:view_booking'' booking_id
                (Error ''You cannot cancel this booking'')}
       \<and> snd (CancelBookingView now p booking_id POST d) = d"
proof (cases p)
  case AnonymousUser
  then show ?thesis
    by (simp add: CancelBookingView_def permission_required_def)
next
  case (LoggedIn u)
  have "\<not> can_cancel_booking (LoggedIn u) b"
    using assms(2) LoggedIn can_cancel_booking_owner by blast
  then show ?thesis
    using assms(1) LoggedIn
    by (simp add: CancelBookingView_def permission_required_def cancel_booking_post_def)
qed

text \<open>
  The delivery partner of the scenario tries to cancel the customer's booking.
\<close>

theorem cancel_by_non_owner_witness:
  "bookings db_assigned 1 = Some booking_assigned
   \<and> principal_id (LoggedIn pat) \<noteq> Some (customer_id booking_assigned)
   \<and> fst (CancelBookingView 25 (LoggedIn pat) 1 [''cancellation_reason'' \<mapsto> ''late''] db_assigned)
       = Redirect ''customer:view_booking'' 1 (Error ''You cannot cancel this booking'')
   \<and> snd (CancelBookingView 25 (LoggedIn pat) 1 [''cancellation_reason'' \<mapsto> ''late''] db_assigned)
       = db_assigned"
proof -
  have h1: "bookings db_assigned 1 = Some booking_assigned"
    by (simp add: db_assigned_eq)
  have h2: "principal_id (LoggedIn pat) \<noteq> Some (customer_id booking_assigned)"
    by (simp add: pat_def booking_assigned_def booking_created_def)
  have r: "fst (CancelBookingView 25 (LoggedIn pat) 1 [''cancellation_reason'' \<mapsto> ''late''] db_assigned)
       = Redirect ''customer:view_booking'' 1 (Error ''You cannot cancel this booking'')"
    by (simp add: CancelBookingView_def permission_required_def cancel_booking_post_def
        h1 pat_def can_cancel_booking_def is_customer_def)
  show ?thesis
    using h1 h2 r cancel_by_non_owner [OF h1 h2, of 25 "[''cancellation_reason'' \<mapsto> ''late'']"]
    by simp
qed

subsection \<open>Advancing the status\<close>

lemma valid_statuses_set:
  "set valid_statuses = {''started'', ''reached'', ''collected'', ''delivered''}"
  by (simp add: valid_statuses_def)

lemma update_status_accept:
  assumes "bookings d booking_id = Some b"
    and "''core.change_booking'' \<in> set (perms u)"
    and "can_update_booking_status (LoggedIn u) b"
    and "strip (post_get POST ''status'' '''') \<in> set valid_statuses"
  shows "UpdateBookingStatusView now (LoggedIn u) booking_id POST d =
     (Redirect ''delivery_partner:view_delivery'' booking_id
        (Success (''Booking status updated to '' @ strip (post_get POST ''status'' ''''))),
      d\<lparr>bookings := (bookings d)(booking_id \<mapsto>
           (stamp (strip (post_get POST ''status'' '''')) now
              (b\<lparr>status := strip (post_get POST ''status'' '''')\<rparr>))\<lparr>updated_at := now\<rparr>),
        status_logs := status_logs d @
           [\<lparr>log_booking = booking_id, log_status = strip (post_get POST ''status'' ''''),
             log_changed_by = Some (user_id u),
             log_notes = Some (strip (post_get POST ''notes'' '''')),
             log_created_at = now\<rparr>]\<rparr>)"
  using assms
  by (simp add: UpdateBookingStatusView_def permission_required_def
      update_booking_status_post_def Let_def)

lemma update_status_reject:
  assumes "bookings d booking_id = Some b"
    and "''core.change_booking'' \<in> set (perms u)"
    and "can_update_booking_status (LoggedIn u) b"
    and "strip (post_get POST ''status'' '''') \<notin> set valid_statuses"
  shows "UpdateBookingStatusView now (LoggedIn u) booking_id POST d =
     (Redirect ''delivery_partner:view_delivery'' booking_id (Error ''Invalid status''), d)"
  using assms
  by (simp add: UpdateBookingStatusView_def permission_required_def
      update_booking_status_post_def Let_def)

text \<open>
  Claim C4, as stated, fails: Pat submits the target with a blank on each side, a text
  that is none of the four values; the view accepts it and stores the value without the
  blanks, which is not the text submitted.
\<close>

theorem update_status_raw_target_counterexample:
  "bookings db_assigned 1 = Some booking_assigned
   \<and> ''core.change_booking'' \<in> set (perms pat)
   \<and> can_update_booking_status (LoggedIn pat) booking_assigned
   \<and> '' collected '' \<notin> {''started'', ''reached'', ''collected'', ''delivered''}
   \<and> succeeded (fst (UpdateBookingStatusView 30 (LoggedIn pat) 1
         [''status'' \<mapsto> '' collected ''] db_assigned))
   \<and> map_option status (bookings (snd (UpdateBookingStatusView 30 (LoggedIn pat) 1
         [''status'' \<mapsto> '' collected ''] db_assigned)) 1) = Some ''collected''
   \<and> ''collected'' \<noteq> '' collected ''"
proof -
  have h1: "bookings db_assigned 1 = Some booking_assigned"
    by (simp add: db_assigned_eq)
  have h2: "''core.change_booking'' \<in> set (perms pat)"
    by (simp add: pat_def)
  have h3: "can_update_booking_status (LoggedIn pat) booking_assigned"
    by (simp add: can_update_booking_status_def is_admin_user_def is_delivery_partner_def
        pat_def booking_assigned_def)
  have h4: "strip (post_get [''status'' \<mapsto> '' collected ''] ''status'' '''')
              \<in> set valid_statuses"
    by (simp add: post_get_def strip_more valid_statuses_def)
  show ?thesis
    using h1 h2 h3
    by (simp add: update_status_accept [OF h1 h2 h3 h4] post_get_def strip_more stamp_def)
qed

text \<open>
  Claim C4, amended. For an actor with the permission of the view who is an administrator
  or the assigned delivery partner, the view accepts the submitted target exactly when,
  after trimming, it is one of started, reached, collected and delivered, whatever the
  current status of the booking. On acceptance the row gets the trimmed target as its
  status and the instant in the timestamp field of that target (and in \<open>updated_at\<close>),
  and one entry with the trimmed notes is appended to the status log; otherwise the
  database is unchanged.
\<close>

theorem update_status_membership:
  assumes "bookings d booking_id = Some b"
    and "''core.change_booking'' \<in> set (perms u)"
    and "can_update_booking_status (LoggedIn u) b"
  shows "(succeeded (fst (UpdateBookingStatusView now (LoggedIn u) booking_id POST d))
            \<longleftrightarrow> strip (post_get POST ''status'' '''')
                  \<in> {''started'', ''reached'', ''collected'', ''delivered''})
       \<and> (strip (post_get POST ''status'' '''') = ''started'' \<longrightarrow>
            bookings (snd (UpdateBookingStatusView now (LoggedIn u) booking_id POST d)) booking_id
              = Some (b\<lparr>status := ''started'', started_at := Some now, updated_at := now\<rparr>))
       \<and> (strip (post_get POST ''status'' '''') = ''reached'' \<longrightarrow>
            bookings (snd (UpdateBookingStatusView now (LoggedIn u) booking_id POST d)) booking_id
              = Some (b\<lparr>status := ''reached'', reached_at := Some now, updated_at := now\<rparr>))
       \<and> (strip (post_get POST ''status'' '''') = ''collected'' \<longrightarrow>
            bookings (snd (UpdateBookingStatusView now (LoggedIn u) booking_id POST d)) booking_id
              = Some (b\<lparr>status := ''collected'', collected_at := Some now, updated_at := now\<rparr>))
       \<and> (strip (post_get POST ''status'' '''') = ''delivered'' \<longrightarrow>
            bookings (snd (UpdateBookingStatusView now (LoggedIn u) booking_id POST d)) booking_id
              = Some (b\<lparr>status := ''delivered'', delivered_at := Some now, updated_at := now\<rparr>))
       \<and> (strip (post_get POST ''status'' '''')
              \<in> {''started'', ''reached'', ''collected'', ''delivered''} \<longrightarrow>
            status_logs (snd (UpdateBookingStatusView now (LoggedIn u) booking_id POST d))
              = status_logs d @
                  [\<lparr>log_booking = booking_id,
                    log_status = strip (post_get POST ''status'' ''''),
                    log_changed_by = Some (user_id u),
                    log_notes = Some (strip (post_get POST ''notes'' '''')),
                    log_created_at = now\<rparr>])
       \<and> (strip (post_get POST ''status'' '''')
              \<notin> {''started'', ''reached'', ''collected'', ''delivered''} \<longrightarrow>
            snd (UpdateBookingStatusView now (LoggedIn u) booking_id POST d) = d)"
proof (cases "strip (post_get POST ''status'' '''') \<in> set valid_statuses")
  case True
  note acc = update_status_accept [OF assms True, of now]
  from True show ?thesis
    unfolding valid_statuses_set
    by (auto simp: acc stamp_def)
next
  case False
  note rej = update_status_reject [OF assms False, of now]
  from False show ?thesis
    unfolding valid_statuses_set
    by (auto simp: rej)
qed

text \<open>
  Pat moves the assigned booking of the scenario straight to collected, the target
  submitted with blanks around it.
\<close>

theorem update_status_membership_witness:
  "bookings db_assigned 1 = Some booking_assigned
   \<and> ''core.change_booking'' \<in> set (perms pat)
   \<and> can_update_booking_status (LoggedIn pat) booking_assigned
   \<and> status booking_assigned = ''assigned''
   \<and> succeeded (fst (UpdateBookingStatusView 30 (LoggedIn pat) 1
         [''status'' \<mapsto> '' collected '', ''notes'' \<mapsto> ''at the door''] db_assigned))
   \<and> bookings (snd (UpdateBookingStatusView 30 (LoggedIn pat) 1
         [''status'' \<mapsto> '' collected '', ''notes'' \<mapsto> ''at the door''] db_assigned)) 1
       = Some (booking_assigned\<lparr>status := ''collected'', collected_at := Some 30,
                                 updated_at := 30\<rparr>)
   \<and> status_logs (snd (UpdateBookingStatusView 30 (LoggedIn pat) 1
         [''status'' \<mapsto> '' collected '', ''notes'' \<mapsto> ''at the door''] db_assigned))
       = [log_created, log_assigned,
          \<lparr>log_booking = 1, log_status = ''collected'', log_changed_by = Some 7,
            log_notes = Some ''at the door'', log_created_at = 30\<rparr>]"
proof -
  let ?POST = "[''status'' \<mapsto> '' collected '', ''notes'' \<mapsto> ''at the door'']"
  have h1: "bookings db_assigned 1 = Some booking_assigned"
    by (simp add: db_assigned_eq)
  have h2: "''core.change_booking'' \<in> set (perms pat)"
    by (simp add: pat_def)
  have h3: "can_update_booking_status (LoggedIn pat) booking_assigned"
    by (simp add: can_update_booking_status_def is_admin_user_def is_delivery_partner_def
        pat_def booking_assigned_def)
  have s: "strip (post_get ?POST ''status'' '''') = ''collected''"
          "strip (post_get ?POST ''notes'' '''') = ''at the door''"
    by (simp_all add: post_get_def strip_more)
  have l: "status_logs db_assigned = [log_created, log_assigned]"
          "status booking_assigned = ''assigned''" "user_id pat = 7"
    by (simp_all add: db_assigned_eq booking_assigned_def pat_def)
  show ?thesis
    using h1 h2 h3 update_status_membership [OF h1 h2 h3, of 30 ?POST]
    by (simp add: s l)
qed

subsection \<open>Bookings without a delivery partner\<close>

lemma partner_invariant_db_created: "partner_invariant db_created"
  by (simp add: partner_invariant_def db_created_eq partner_assigned_def booking_created_def)

text \<open>
  Claim C3, as stated, fails, twice on the pending booking of the scenario, which has no
  delivery partner. Its customer cancels it: the row is then cancelled, still without a
  delivery partner. And the administrator advances it to started: the view succeeds, the
  row is started without a delivery partner, and the database no longer satisfies even
  the invariant that exempts cancelled bookings.
\<close>

theorem unassigned_booking_counterexample:
  "bookings db_created 1 = Some booking_created
   \<and> unassigned_is_pending booking_created
   \<and> partner_invariant db_created
   \<and> succeeded (fst (CancelBookingView 15 (LoggedIn alice) 1
         [''cancellation_reason'' \<mapsto> ''changed plans''] db_created))
   \<and> bookings (snd (CancelBookingView 15 (LoggedIn alice) 1
         [''cancellation_reason'' \<mapsto> ''changed plans''] db_created)) 1
       = Some (booking_created\<lparr>status := ''cancelled'', cancelled_at := Some 15,
                 cancellation_reason := Some ''changed plans'', updated_at := 15\<rparr>)
   \<and> \<not> unassigned_is_pending
         (booking_created\<lparr>status := ''cancelled'', cancelled_at := Some 15,
                 cancellation_reason := Some ''changed plans'', updated_at := 15\<rparr>)
   \<and> is_admin_user (LoggedIn root)
   \<and> succeeded (fst (UpdateBookingStatusView 15 (LoggedIn root) 1
         [''status'' \<mapsto> ''started''] db_created))
   \<and> bookings (snd (UpdateBookingStatusView 15 (LoggedIn root) 1
         [''status'' \<mapsto> ''started''] db_created)) 1
       = Some (booking_created\<lparr>status := ''started'', started_at := Some 15,
                 updated_at := 15\<rparr>)
   \<and> \<not> unassigned_is_pending
         (booking_created\<lparr>status := ''started'', started_at := Some 15, updated_at := 15\<rparr>)
   \<and> \<not> partner_invariant (snd (UpdateBookingStatusView 15 (LoggedIn root) 1
         [''status'' \<mapsto> ''started''] db_created))"
proof -
  have b: "bookings db_created 1 = Some booking_created"
    by (simp add: db_created_eq)
  have cancel: "CancelBookingView 15 (LoggedIn alice) 1
         [''cancellation_reason'' \<mapsto> ''changed plans''] db_created
      = (Redirect ''customer:view_booking'' 1 (Success ''Booking cancelled successfully''),
         db_created\<lparr>bookings := (bookings db_created)(1 \<mapsto>
              booking_created\<lparr>status := ''cancelled'', cancelled_at := Some 15,
                 cancellation_reason := Some ''changed plans'', updated_at := 15\<rparr>),
           status_logs := status_logs db_created @
              [\<lparr>log_booking = 1, log_status = ''cancelled'', log_changed_by = Some 1,
                log_notes = Some ''changed plans'', log_created_at = 15\<rparr>]\<rparr>)"
    by (simp add: CancelBookingView_def permission_required_def alice_def
        cancel_booking_post_def b can_cancel_booking_def is_customer_def booking_created_def
        post_get_def strip_more Let_def)
  have adm: "is_admin_user (LoggedIn root)"
    by (simp add: is_admin_user_def root_def)
  have upd: "UpdateBookingStatusView 15 (LoggedIn root) 1 [''status'' \<mapsto> ''started''] db_created
      = (Redirect ''delivery_partner:view_delivery'' 1
           (Success ''Booking status updated to started''),
         db_created\<lparr>bookings := (bookings db_created)(1 \<mapsto>
              booking_created\<lparr>status := ''started'', started_at := Some 15,
                 updated_at := 15\<rparr>),
           status_logs := status_logs db_created @
              [\<lparr>log_booking = 1, log_status = ''started'', log_changed_by = Some 9,
                log_notes = Some '''', log_created_at = 15\<rparr>]\<rparr>)"
    by (simp add: UpdateBookingStatusView_def permission_required_def
        update_booking_status_post_def b can_update_booking_status_def adm
        post_get_def strip_words valid_statuses_def stamp_def Let_def)
       (simp add: root_def)
  have broken: "\<not> partner_assigned
         (booking_created\<lparr>status := ''started'', started_at := Some 15, updated_at := 15\<rparr>)"
    by (simp add: partner_assigned_def booking_created_def)
  have inran: "booking_created\<lparr>status := ''started'', started_at := Some 15, updated_at := 15\<rparr>
        \<in> ran (bookings (snd (UpdateBookingStatusView 15 (LoggedIn root) 1
               [''status'' \<mapsto> ''started''] db_created)))"
    by (rule ranI [of _ 1]) (simp add: upd)
  have ninv: "\<not> partner_invariant (snd (UpdateBookingStatusView 15 (LoggedIn root) 1
         [''status'' \<mapsto> ''started''] db_created))"
    using broken inran unfolding partner_invariant_def by blast
  have u1: "unassigned_is_pending booking_created"
    by (simp add: unassigned_is_pending_def booking_created_def)
  have u2: "\<not> unassigned_is_pending
         (booking_created\<lparr>status := ''cancelled'', cancelled_at := Some 15,
                 cancellation_reason := Some ''changed plans'', updated_at := 15\<rparr>)"
       "\<not> unassigned_is_pending
         (booking_created\<lparr>status := ''started'', started_at := Some 15, updated_at := 15\<rparr>)"
    by (simp_all add: unassigned_is_pending_def booking_created_def)
  show ?thesis
    using b u1 u2 adm ninv partner_invariant_db_created
    by (simp add: cancel upd)
qed

lemma ran_upd_all: "\<forall>b\<in>ran m. P b \<Longrightarrow> P v \<Longrightarrow> \<forall>b\<in>ran (m(k \<mapsto> v)). P b"
  by (auto simp: ran_def split: if_splits)

lemma permission_required_keeps:
  assumes "P d" and "\<And>u. P (snd (h u d))"
  shows "P (snd (permission_required perm p h d))"
  using assms by (cases p) (simp_all add: permission_required_def)

lemma stamp_keeps_partner: "delivery_partner_id (stamp s now b) = delivery_partner_id b"
  by (simp add: stamp_def)

lemma partner_invariant_frame:
  "partner_invariant (d\<lparr>status_logs := l\<rparr>) = partner_invariant d"
  "partner_invariant (d\<lparr>next_booking_id := n\<rparr>) = partner_invariant d"
  by (simp_all add: partner_invariant_def)

lemma partner_invariant_upd:
  assumes "partner_invariant d" and "partner_assigned v"
  shows "partner_invariant (d\<lparr>bookings := (bookings d)(k \<mapsto> v)\<rparr>)"
proof -
  from assms(1) have "\<forall>b\<in>ran (bookings d). partner_assigned b"
    by (simp add: partner_invariant_def)
  then have "\<forall>b\<in>ran ((bookings d)(k \<mapsto> v)). partner_assigned b"
    using assms(2) by (rule ran_upd_all)
  then show ?thesis
    by (simp add: partner_invariant_def)
qed

lemma create_keeps_partner_invariant:
  "partner_invariant d \<Longrightarrow> partner_invariant (snd (create_booking_post now POST u d))"
  by (simp add: create_booking_post_def Let_def partner_invariant_frame partner_invariant_upd
      partner_assigned_def)

lemma assign_keeps_partner_invariant:
  "partner_invariant d \<Longrightarrow>
   partner_invariant (snd (assign_booking_post to_int now booking_id POST u d))"
  by (simp add: assign_booking_post_def Let_def partner_invariant_frame partner_invariant_upd
      partner_assigned_def split: option.splits)

lemma cancel_keeps_partner_invariant:
  "partner_invariant d \<Longrightarrow>
   partner_invariant (snd (cancel_booking_post now booking_id POST u d))"
  by (simp add: cancel_booking_post_def Let_def partner_invariant_frame partner_invariant_upd
      partner_assigned_def split: option.splits)

lemma non_admin_updates_own_delivery:
  "can_update_booking_status (LoggedIn u) b \<Longrightarrow> \<not> is_admin_user (LoggedIn u) \<Longrightarrow>
   delivery_partner_id b = Some (user_id u)"
  by (auto simp: can_update_booking_status_def split: if_splits)

lemma update_keeps_partner_invariant:
  assumes "partner_invariant d" and "\<not> is_admin_user (LoggedIn u)"
  shows "partner_invariant (snd (update_booking_status_post now booking_id POST u d))"
proof (cases "bookings d booking_id")
  case None
  with assms(1) show ?thesis by (simp add: update_booking_status_post_def)
next
  case (Some b)
  show ?thesis
  proof (cases "can_update_booking_status (LoggedIn u) b")
    case False
    with Some assms(1) show ?thesis by (simp add: update_booking_status_post_def)
  next
    case True
    then have "delivery_partner_id b = Some (user_id u)"
      using assms(2) by (rule non_admin_updates_own_delivery)
    then have "partner_assigned ((stamp s now (b\<lparr>status := s\<rparr>))\<lparr>updated_at := now\<rparr>)" for s
      by (simp add: partner_assigned_def stamp_keeps_partner)
    with Some True assms(1) show ?thesis
      by (simp add: update_booking_status_post_def Let_def partner_invariant_frame
          partner_invariant_upd)
  qed
qed

lemma partner_invariant_db_assigned: "partner_invariant db_assigned"
  by (simp add: partner_invariant_def db_assigned_eq partner_assigned_def booking_assigned_def)

lemma update_failure_no_op:
  "\<not> succeeded (fst (UpdateBookingStatusView now p booking_id POST d)) \<Longrightarrow>
   snd (UpdateBookingStatusView now p booking_id POST d) = d"
  by (cases p)
     (auto simp: UpdateBookingStatusView_def permission_required_def
       update_booking_status_post_def Let_def split: option.splits if_splits)

lemma update_keeps_with_partner:
  assumes "partner_invariant d"
    and "map_option delivery_partner_id (bookings d booking_id) \<noteq> Some None"
  shows "partner_invariant (snd (update_booking_status_post now booking_id POST u d))"
proof (cases "bookings d booking_id")
  case None
  with assms(1) show ?thesis by (simp add: update_booking_status_post_def)
next
  case (Some b)
  with assms(2) have "delivery_partner_id b \<noteq> None" by simp
  then have "partner_assigned ((stamp s now (b\<lparr>status := s\<rparr>))\<lparr>updated_at := now\<rparr>)" for s
    by (simp add: partner_assigned_def stamp_keeps_partner)
  with Some assms(1) show ?thesis
    by (simp add: update_booking_status_post_def Let_def partner_invariant_frame
        partner_invariant_upd)
qed

text \<open>
  Claim C3, amended. Creating, assigning and cancelling a booking preserve the invariant
  that every booking which is neither pending nor cancelled has a delivery partner, and
  so does advancing its status, except when the view succeeds for an administrator on a
  booking that has no delivery partner.
\<close>

theorem partner_invariant_preserved:
  assumes "partner_invariant d"
  shows "partner_invariant (snd (CreateBookingView now p POST d))
       \<and> partner_invariant (snd (AssignBookingView to_int now p booking_id POST d))
       \<and> partner_invariant (snd (CancelBookingView now p booking_id POST d))
       \<and> (\<not> (is_admin_user p
               \<and> succeeded (fst (UpdateBookingStatusView now p booking_id POST d))
               \<and> map_option delivery_partner_id (bookings d booking_id) = Some None) \<longrightarrow>
            partner_invariant (snd (UpdateBookingStatusView now p booking_id POST d)))"
proof -
  have c: "partner_invariant (snd (CreateBookingView now p POST d))"
    unfolding CreateBookingView_def
    by (rule permission_required_keeps [where P = partner_invariant])
       (simp_all add: assms create_keeps_partner_invariant)
  have a: "partner_invariant (snd (AssignBookingView to_int now p booking_id POST d))"
    unfolding AssignBookingView_def
    by (rule permission_required_keeps [where P = partner_invariant])
       (simp_all add: assms assign_keeps_partner_invariant)
  have x: "partner_invariant (snd (CancelBookingView now p booking_id POST d))"
    unfolding CancelBookingView_def
    by (rule permission_required_keeps [where P = partner_invariant])
       (simp_all add: assms cancel_keeps_partner_invariant)
  have s: "partner_invariant (snd (UpdateBookingStatusView now p booking_id POST d))"
    if g: "\<not> (is_admin_user p
               \<and> succeeded (fst (UpdateBookingStatusView now p booking_id POST d))
               \<and> map_option delivery_partner_id (bookings d booking_id) = Some None)"
  proof (cases "succeeded (fst (UpdateBookingStatusView now p booking_id POST d))")
    case False
    then have "snd (UpdateBookingStatusView now p booking_id POST d) = d"
      by (rule update_failure_no_op)
    with assms show ?thesis by simp
  next
    case True
    show ?thesis
    proof (cases p)
      case AnonymousUser
      with assms show ?thesis
        by (simp add: UpdateBookingStatusView_def permission_required_def)
    next
      case (LoggedIn u)
      show ?thesis
      proof (cases "is_admin_user p")
        case False
        with LoggedIn assms update_keeps_partner_invariant [of d u now booking_id POST]
        show ?thesis
          by (simp add: UpdateBookingStatusView_def permission_required_def)
      next
        case admin: True
        with g True have "map_option delivery_partner_id (bookings d booking_id) \<noteq> Some None"
          by simp
        with assms have "partner_invariant (snd (update_booking_status_post now booking_id POST u d))"
          by (rule update_keeps_with_partner)
        with LoggedIn assms show ?thesis
          by (simp add: UpdateBookingStatusView_def permission_required_def)
      qed
    qed
  qed
  from c a x s show ?thesis by blast
qed

text \<open>
  The views on the database of the scenario after the assignment; the status is advanced
  by the administrator and by Pat, on a booking that has its delivery partner.
\<close>

theorem partner_invariant_preserved_witness:
  "partner_invariant db_assigned
   \<and> \<not> (is_admin_user (LoggedIn root)
          \<and> succeeded (fst (UpdateBookingStatusView 40 (LoggedIn root) 1
                [''status'' \<mapsto> ''started''] db_assigned))
          \<and> map_option delivery_partner_id (bookings db_assigned 1) = Some None)
   \<and> succeeded (fst (UpdateBookingStatusView 40 (LoggedIn root) 1
                [''status'' \<mapsto> ''started''] db_assigned))
   \<and> partner_invariant (snd (CreateBookingView 40 (LoggedIn alice)
         [''pickup_address'' \<mapsto> ''12 Mill Lane'', ''delivery_address'' \<mapsto> ''3 Quay Street'']
         db_assigned))
   \<and> partner_invariant (snd (AssignBookingView to_int0 40 (LoggedIn root) 1
         [''delivery_partner_id'' \<mapsto> ''8''] db_assigned))
   \<and> partner_invariant (snd (CancelBookingView 40 (LoggedIn alice) 1 Map.empty db_assigned))
   \<and> partner_invariant (snd (UpdateBookingStatusView 40 (LoggedIn root) 1
         [''status'' \<mapsto> ''started''] db_assigned))
   \<and> partner_invariant (snd (UpdateBookingStatusView 40 (LoggedIn pat) 1
         [''status'' \<mapsto> ''started''] db_assigned))"
proof -
  let ?new = "[''pickup_address'' \<mapsto> ''12 Mill Lane'', ''delivery_address'' \<mapsto> ''3 Quay Street'']"
  let ?adv = "[''status'' \<mapsto> ''started'']"
  have h: "partner_invariant db_assigned"
    by (rule partner_invariant_db_assigned)
  have row: "map_option delivery_partner_id (bookings db_assigned 1) = Some (Some 7)"
    by (simp add: db_assigned_eq booking_assigned_def)
  have ok: "succeeded (fst (UpdateBookingStatusView 40 (LoggedIn root) 1 ?adv db_assigned))"
    by (simp add: UpdateBookingStatusView_def permission_required_def root_def
        update_booking_status_post_def db_assigned_eq can_update_booking_status_def
        is_admin_user_def post_get_def strip_words valid_statuses_def Let_def)
  have g: "\<not> (is_admin_user (LoggedIn root)
          \<and> succeeded (fst (UpdateBookingStatusView 40 (LoggedIn root) 1 ?adv db_assigned))
          \<and> map_option delivery_partner_id (bookings db_assigned 1) = Some None)"
    by (simp add: row)
  have g': "\<not> (is_admin_user (LoggedIn pat)
          \<and> succeeded (fst (UpdateBookingStatusView 40 (LoggedIn pat) 1 ?adv db_assigned))
          \<and> map_option delivery_partner_id (bookings db_assigned 1) = Some None)"
    by (simp add: row)
  have k1: "partner_invariant (snd (CreateBookingView 40 (LoggedIn alice) ?new db_assigned))"
    using partner_invariant_preserved [OF h, of 40 "LoggedIn alice" ?new to_int0 1] by blast
  have k2: "partner_invariant (snd (AssignBookingView to_int0 40 (LoggedIn root) 1
         [''delivery_partner_id'' \<mapsto> ''8''] db_assigned))"
    using partner_invariant_preserved [OF h, of 40 "LoggedIn root"
        "[''delivery_partner_id'' \<mapsto> ''8'']" to_int0 1] by blast
  have k3: "partner_invariant (snd (CancelBookingView 40 (LoggedIn alice) 1 Map.empty db_assigned))"
    using partner_invariant_preserved [OF h, of 40 "LoggedIn alice" Map.empty to_int0 1] by blast
  have k4: "partner_invariant (snd (UpdateBookingStatusView 40 (LoggedIn root) 1 ?adv db_assigned))"
    using g partner_invariant_preserved [OF h, of 40 "LoggedIn root" ?adv to_int0 1] by blast
  have k5: "partner_invariant (snd (UpdateBookingStatusView 40 (LoggedIn pat) 1 ?adv db_assigned))"
    using g' partner_invariant_preserved [OF h, of 40 "LoggedIn pat" ?adv to_int0 1] by blast
  from h g ok k1 k2 k3 k4 k5 show ?thesis
    by blast
qed

subsection \<open>Terminal states\<close>

text \<open>
  Cancelling respects the terminal states: on a delivered or cancelled booking it fails
  and changes nothing.
\<close>

lemma cancel_terminal_refused:
  assumes "bookings d booking_id = Some b"
    and "status b \<in> {''delivered'', ''cancelled''}"
  shows "\<not> succeeded (fst (CancelBookingView now p booking_id POST d))
       \<and> snd (CancelBookingView now p booking_id POST d) = d"
proof (cases p)
  case AnonymousUser
  then show ?thesis
    by (simp add: CancelBookingView_def permission_required_def)
next
  case (LoggedIn u)
  have "\<not> can_cancel_booking (LoggedIn u) b"
    using assms(2) by (auto simp: can_cancel_booking_def)
  then show ?thesis
    using assms(1) LoggedIn
    by (simp add: CancelBookingView_def permission_required_def cancel_booking_post_def)
qed

lemma get_next_booking_status_terminal:
  "get_next_booking_status ''delivered'' = None"
  "get_next_booking_status ''cancelled'' = None"
  by (simp_all add: get_next_booking_status_def)

lemma assign_on_delivered:
  "AssignBookingView to_int0 40 (LoggedIn root) 1 [''delivery_partner_id'' \<mapsto> ''7'']
         db_delivered
       = (Redirect ''administrator:view_booking'' 1
            (Success ''Booking assigned to +919876543210''),
          db_delivered\<lparr>bookings := (bookings db_delivered)(1 \<mapsto>
               booking_delivered\<lparr>delivery_partner_id := Some 7, status := ''assigned'',
                                  assigned_at := Some 40, updated_at := 40\<rparr>),
            status_logs := status_logs db_delivered @
               [\<lparr>log_booking = 1, log_status = ''assigned'', log_changed_by = Some 9,
                 log_notes = Some ''Assigned to +919876543210'', log_created_at = 40\<rparr>]\<rparr>)"
proof -
  have b: "bookings db_delivered 1 = Some booking_delivered"
    by (simp add: db_delivered_eq)
  have usr: "users db_delivered 7 = Some pat"
    by (simp add: db_delivered_eq db0_def)
  show ?thesis
    by (simp add: AssignBookingView_def permission_required_def root_def
        assign_booking_post_def b to_int0_def usr Let_def)
       (simp add: pat_def get_full_name_def)
qed

text \<open>
  Claim C1 fails on the code. The booking of the scenario is delivered, a status without
  successor in \<open>get_next_booking_status\<close>. Its delivery partner then submits the status
  started: the view succeeds and the row is started. The administrator assigns it again:
  the view succeeds and the row is assigned. Only the cancel view refuses.
\<close>

theorem terminal_status_overwritten:
  "bookings db_delivered 1 = Some booking_delivered
   \<and> status booking_delivered = ''delivered''
   \<and> get_next_booking_status ''delivered'' = None
   \<and> succeeded (fst (UpdateBookingStatusView 40 (LoggedIn pat) 1
         [''status'' \<mapsto> ''started''] db_delivered))
   \<and> bookings (snd (UpdateBookingStatusView 40 (LoggedIn pat) 1
         [''status'' \<mapsto> ''started''] db_delivered)) 1
       = Some (booking_delivered\<lparr>status := ''started'', started_at := Some 40,
                                  updated_at := 40\<rparr>)
   \<and> succeeded (fst (AssignBookingView to_int0 40 (LoggedIn root) 1
         [''delivery_partner_id'' \<mapsto> ''7''] db_delivered))
   \<and> bookings (snd (AssignBookingView to_int0 40 (LoggedIn root) 1
         [''delivery_partner_id'' \<mapsto> ''7''] db_delivered)) 1
       = Some (booking_delivered\<lparr>status := ''assigned'', assigned_at := Some 40,
                                  updated_at := 40\<rparr>)
   \<and> \<not> succeeded (fst (CancelBookingView 40 (LoggedIn alice) 1 Map.empty db_delivered))
   \<and> snd (CancelBookingView 40 (LoggedIn alice) 1 Map.empty db_delivered) = db_delivered"
proof -
  have b: "bookings db_delivered 1 = Some booking_delivered"
    by (simp add: db_delivered_eq)
  have s: "status booking_delivered = ''delivered''"
       "delivery_partner_id booking_delivered = Some 7"
    by (simp_all add: booking_delivered_def booking_assigned_def)
  have u: "UpdateBookingStatusView 40 (LoggedIn pat) 1 [''status'' \<mapsto> ''started''] db_delivered
       = (Redirect ''delivery_partner:view_delivery'' 1
            (Success ''Booking status updated to started''),
          db_delivered\<lparr>bookings := (bookings db_delivered)(1 \<mapsto>
               booking_delivered\<lparr>status := ''started'', started_at := Some 40,
                                  updated_at := 40\<rparr>),
            status_logs := status_logs db_delivered @
               [\<lparr>log_booking = 1, log_status = ''started'', log_changed_by = Some 7,
                 log_notes = Some '''', log_created_at = 40\<rparr>]\<rparr>)"
    by (simp add: UpdateBookingStatusView_def permission_required_def pat_def
        update_booking_status_post_def b can_update_booking_status_def is_admin_user_def
        is_delivery_partner_def s post_get_def strip_words valid_statuses_def stamp_def Let_def)
  note a = assign_on_delivered
  have same: "booking_delivered\<lparr>delivery_partner_id := Some 7, status := ''assigned'',
                                  assigned_at := Some 40, updated_at := 40\<rparr>
            = booking_delivered\<lparr>status := ''assigned'', assigned_at := Some 40,
                                  updated_at := 40\<rparr>"
    by (simp add: booking_delivered_def booking_assigned_def)
  have c: "\<not> succeeded (fst (CancelBookingView 40 (LoggedIn alice) 1 Map.empty db_delivered))
       \<and> snd (CancelBookingView 40 (LoggedIn alice) 1 Map.empty db_delivered) = db_delivered"
    using b by (rule cancel_terminal_refused) (simp add: s)
  show ?thesis
    using b c by (simp add: s get_next_booking_status_terminal u a same)
qed

subsection \<open>Assignment\<close>

text \<open>
  What the assign view does hold to: a failure leaves the database as it was, a missing
  or empty partner id is answered with the error message, and a success means that the
  submitted id is that of a user with the delivery-partner role, sets partner, status and
  \<open>assigned_at\<close> and appends one entry to the status log.
\<close>

lemma assign_failure_no_op:
  "\<not> succeeded (fst (AssignBookingView to_int now p booking_id POST d)) \<Longrightarrow>
   snd (AssignBookingView to_int now p booking_id POST d) = d"
  by (cases p)
     (auto simp: AssignBookingView_def permission_required_def assign_booking_post_def Let_def
       split: option.splits if_splits)

lemma assign_partner_missing:
  assumes "bookings d booking_id = Some b"
    and "''core.change_booking'' \<in> set (perms u)"
    and "POST ''delivery_partner_id'' = None \<or> POST ''delivery_partner_id'' = Some ''''"
  shows "AssignBookingView to_int now (LoggedIn u) booking_id POST d =
     (Redirect ''administrator:view_booking'' booking_id
        (Error ''Please select a delivery partner''), d)"
  using assms
  by (auto simp: AssignBookingView_def permission_required_def assign_booking_post_def Let_def)

lemma assign_success:
  assumes "succeeded (fst (AssignBookingView to_int now p booking_id POST d))"
  shows "\<exists>u b text partner_id partner.
           p = LoggedIn u \<and> ''core.change_booking'' \<in> set (perms u)
         \<and> bookings d booking_id = Some b
         \<and> POST ''delivery_partner_id'' = Some text \<and> text \<noteq> []
         \<and> to_int text = Some partner_id
         \<and> users d partner_id = Some partner \<and> role partner = ''delivery_partner''
         \<and> snd (AssignBookingView to_int now p booking_id POST d) =
             d\<lparr>bookings := (bookings d)(booking_id \<mapsto>
                  b\<lparr>delivery_partner_id := Some (user_id partner), status := ''assigned'',
                    assigned_at := Some now, updated_at := now\<rparr>),
               status_logs := status_logs d @
                  [\<lparr>log_booking = booking_id, log_status = ''assigned'',
                    log_changed_by = Some (user_id u),
                    log_notes = Some (''Assigned to '' @ get_full_name partner),
                    log_created_at = now\<rparr>]\<rparr>"
  using assms
  by (cases p)
     (auto simp: AssignBookingView_def permission_required_def assign_booking_post_def Let_def
       split: option.splits if_splits)

text \<open>
  Claim C2 fails on the code. The assign view succeeds on the delivered booking of the
  scenario and sets it back to assigned; and it succeeds on the pending booking with the
  id of Quinn, a delivery partner whose account is not active.
\<close>

theorem assign_without_guards:
  "bookings db_delivered 1 = Some booking_delivered
   \<and> status booking_delivered = ''delivered''
   \<and> succeeded (fst (AssignBookingView to_int0 40 (LoggedIn root) 1
         [''delivery_partner_id'' \<mapsto> ''7''] db_delivered))
   \<and> map_option status (bookings (snd (AssignBookingView to_int0 40 (LoggedIn root) 1
         [''delivery_partner_id'' \<mapsto> ''7''] db_delivered)) 1) = Some ''assigned''
   \<and> bookings db_created 1 = Some booking_created
   \<and> users db_created 8 = Some quinn
   \<and> \<not> is_active quinn
   \<and> succeeded (fst (AssignBookingView to_int0 20 (LoggedIn root) 1
         [''delivery_partner_id'' \<mapsto> ''8''] db_created))
   \<and> bookings (snd (AssignBookingView to_int0 20 (LoggedIn root) 1
         [''delivery_partner_id'' \<mapsto> ''8''] db_created)) 1
       = Some (booking_created\<lparr>delivery_partner_id := Some 8, status := ''assigned'',
                                assigned_at := Some 20, updated_at := 20\<rparr>)"
proof -
  have b: "bookings db_delivered 1 = Some booking_delivered"
    by (simp add: db_delivered_eq)
  have s: "status booking_delivered = ''delivered''"
    by (simp add: booking_delivered_def)
  have usr: "users db_delivered 7 = Some pat" "users db_created 8 = Some quinn"
    by (simp_all add: db_delivered_eq db_created_eq db0_def)
  note a = assign_on_delivered
  have c: "bookings db_created 1 = Some booking_created"
    by (simp add: db_created_eq)
  have q: "AssignBookingView to_int0 20 (LoggedIn root) 1 [''delivery_partner_id'' \<mapsto> ''8'']
         db_created
       = (Redirect ''administrator:view_booking'' 1
            (Success ''Booking assigned to +919000000008''),
          db_created\<lparr>bookings := (bookings db_created)(1 \<mapsto>
               booking_created\<lparr>delivery_partner_id := Some 8, status := ''assigned'',
                                assigned_at := Some 20, updated_at := 20\<rparr>),
            status_logs := status_logs db_created @
               [\<lparr>log_booking = 1, log_status = ''assigned'', log_changed_by = Some 9,
                 log_notes = Some ''Assigned to +919000000008'', log_created_at = 20\<rparr>]\<rparr>)"
    by (simp add: AssignBookingView_def permission_required_def root_def
        assign_booking_post_def c to_int0_def usr Let_def)
       (simp add: quinn_def get_full_name_def)
  have i: "\<not> is_active quinn"
    by (simp add: quinn_def)
  show ?thesis
    using b c i by (simp add: s usr a q)
qed

end
